theory Spec2Isabelle
  imports Complex_Main
begin

section \<open>Vectors, constants and collaborators of the MTM arm\<close>

text \<open>
  The source is \<^verbatim>\<open>mtsIntuitiveResearchKitMTM.cpp\<close>. Every \<^verbatim>\<open>double\<close> of the source is
  a \<^typ>\<open>real\<close> here: arithmetic is exact and there is neither NaN nor infinity. Vectors
  (\<^verbatim>\<open>vctDoubleVec\<close>, \<^verbatim>\<open>vctBoolVec\<close>) are lists; an element write is a list update and an
  element read is \<open>!\<close>. The source indexes joint vectors of \<^verbatim>\<open>NumberOfJoints()\<close> elements
  with constants below that size, so the theorems assume the lengths they need.
\<close>

type_synonym vctDoubleVec = "real list"
type_synonym vctBoolVec = "bool list"
type_synonym vct3 = "real \<times> real \<times> real"
type_synonym vctMatRot3 = "vct3 \<times> vct3 \<times> vct3"

record vctFrm4x4 =
  Rotation :: vctMatRot3
  Translation :: vct3

text \<open>Modelled from the spec: \<^verbatim>\<open>cmnPI\<close> is declared in the cisst headers, which are not
  part of the source file; the spec calls it \<open>\<pi>\<close> (a half turn).\<close>
definition cmnPI :: real where
  "cmnPI = pi"

text \<open>Modelled from the spec: \<^verbatim>\<open>cmnPI_180\<close> (cisst header) converts degrees to radians.\<close>
definition cmnPI_180 :: real where
  "cmnPI_180 = pi / 180"

text \<open>Modelled from the spec: \<^verbatim>\<open>cmn_s\<close> and \<^verbatim>\<open>cmn_ms\<close> (cisst header) are one second and
  one millisecond in the SI units the task clock counts.\<close>
definition cmn_s :: real where
  "cmn_s = 1"

definition cmn_ms :: real where
  "cmn_ms = 1 / 1000"

text \<open>Modelled from the spec: the arm has seven joints and the roll joint is the last one
  (the header declaring \<^verbatim>\<open>NumberOfJoints\<close> and \<^verbatim>\<open>JNT_WRIST_ROLL\<close> is not part of the source
  file; \<^verbatim>\<open>EnterResettingRollEncoder\<close> disables joint 6 as "the roll joint").\<close>
definition NumberOfJoints :: nat where
  "NumberOfJoints = 7"

definition NumberOfJointsKinematics :: nat where
  "NumberOfJointsKinematics = 7"

definition JNT_WRIST_ROLL :: nat where
  "JNT_WRIST_ROLL = 6"

text \<open>\<^verbatim>\<open>v.SetAll(x)\<close>, \<^verbatim>\<open>v.Ref(size, start).SetAll(x)\<close>, \<^verbatim>\<open>dst.Ref(n).Assign(src)\<close>,
  \<^verbatim>\<open>DifferenceOf\<close>, \<^verbatim>\<open>AbsSelf\<close> and \<^verbatim>\<open>ElementwiseGreaterOrEqual(..).Any()\<close> of the cisst
  vector library.\<close>
definition vct_SetAll :: "'a \<Rightarrow> 'a list \<Rightarrow> 'a list" where
  "vct_SetAll x v = replicate (length v) x"

definition vct_Ref_SetAll :: "nat \<Rightarrow> nat \<Rightarrow> 'a \<Rightarrow> 'a list \<Rightarrow> 'a list" where
  "vct_Ref_SetAll n start x v = take start v @ replicate n x @ drop (start + n) v"

definition vct_Ref_Assign :: "nat \<Rightarrow> 'a list \<Rightarrow> 'a list \<Rightarrow> 'a list" where
  "vct_Ref_Assign n src dst = take n src @ drop n dst"

definition vct_DifferenceOf :: "vctDoubleVec \<Rightarrow> vctDoubleVec \<Rightarrow> vctDoubleVec" where
  "vct_DifferenceOf a b = map2 (\<lambda>x y. x - y) a b"

definition vct_AbsSelf :: "vctDoubleVec \<Rightarrow> vctDoubleVec" where
  "vct_AbsSelf v = map abs v"

definition vct_AnyGreaterOrEqual :: "vctDoubleVec \<Rightarrow> vctDoubleVec \<Rightarrow> bool" where
  "vct_AnyGreaterOrEqual a b = list_ex (\<lambda>(x, y). y \<le> x) (zip a b)"

text \<open>\<^verbatim>\<open>nearbyint\<close> of the C library in the default rounding mode (the source never changes
  it): the nearest integer, a tie going to the even neighbour.\<close>
definition nearbyint :: "real \<Rightarrow> real" where
  "nearbyint x =
     (let f = \<lfloor>x\<rfloor>; r = x - of_int f
      in of_int (if r < 1 / 2 then f
                 else if 1 / 2 < r then f + 1
                 else if even f then f else f + 1))"

datatype Errno = ESUCCESS | EFAILURE

text \<open>The result of one evaluation of the trajectory generator. The source
  distinguishes two values and treats every other one in the \<^verbatim>\<open>default\<close> branch of its
  \<^verbatim>\<open>switch\<close>; \<open>Reflexxes_ERROR\<close> stands for all of those.\<close>
datatype ResultType = Reflexxes_WORKING | Reflexxes_FINAL_STATE_REACHED | Reflexxes_ERROR

datatype KinematicType = MTM_ITERATIVE | MTM_CLOSED

datatype WrenchType = WRENCH_UNDEFINED | WRENCH_SPATIAL | WRENCH_BODY

datatype ControlSpace = JOINT_SPACE | CARTESIAN_SPACE

datatype ControlMode = POSITION_MODE | TRAJECTORY_MODE | EFFORT_MODE

text \<open>The states this file adds to the arm's state machine (\<^verbatim>\<open>Init\<close>), the two base-class
  states it names, and any other state of the base class.\<close>
datatype StateType =
    ARM_HOMED
  | CALIBRATING_ROLL
  | ROLL_CALIBRATED
  | HOMING_ROLL
  | RESETTING_ROLL_ENCODER
  | ROLL_ENCODER_RESET
  | READY
  | BASE_STATE string

text \<open>What a cycle sends out of the component: requests to the PID servo and the robot
  IO below it, and messages and events to the interface above it. The state keeps them
  in the order they were sent.\<close>
datatype action =
    PID_SetTrackingErrorTolerance vctDoubleVec
  | PID_SetCheckPositionLimit bool
  | PID_EnableTrackingError bool
  | PID_EnableJoints vctBoolVec
  | PID_EnableTorqueMode vctBoolVec
  | PID_SetPositionJoint vctDoubleVec
  | ControlSpaceAndMode ControlSpace ControlMode
  | RobotIO_ResetSingleEncoder nat
  | SendStatus string
  | SendWarning string
  | SendError string
  | GripperEvents_GripperClosed bool
  | GripperEvents_GripperPinch

text \<open>The kinematics solver is a black box of the source: given the seed and the goal
  it returns an error code and the joint vector it leaves in place of the seed.
  \<^verbatim>\<open>links[3]\<close> carries the limits of the platform joint.\<close>
record robManipulator =
  solver_InverseKinematics :: "vctDoubleVec \<Rightarrow> vctFrm4x4 \<Rightarrow> Errno \<times> vctDoubleVec"
  link3_PositionMax :: real
  link3_PositionMin :: real

text \<open>One evaluation of the trajectory generator (a black box of the source): the new
  position and velocity it writes, its result value and the duration it predicts.\<close>
record reflexxes_out =
  ev_Position :: vctDoubleVec
  ev_Velocity :: vctDoubleVec
  ev_ResultValue :: ResultType
  ev_Duration :: real

text \<open>The members of the arm the source file reads and writes.\<close>
record MTM =
  Name :: string
  m_simulated :: bool
  mHomedOnce :: bool
  mAllEncodersBiased :: bool
  mKinematicType :: KinematicType
  Manipulator :: robManipulator
  mArmState_current :: StateType
  mArmState_desired :: StateType
  mFallbackState :: StateType
  StateTable_Tic :: real
  JointSet :: vctDoubleVec
  JointVelocitySet :: vctDoubleVec
  traj_Goal :: vctDoubleVec
  traj_GoalVelocity :: vctDoubleVec
  traj_GoalError :: vctDoubleVec
  traj_GoalTolerance :: vctDoubleVec
  traj_EndTime :: real
  Reflexxes_Evaluate ::
    "vctDoubleVec \<Rightarrow> vctDoubleVec \<Rightarrow> vctDoubleVec \<Rightarrow> vctDoubleVec \<Rightarrow> reflexxes_out"
  mHomingTimer :: real
  mHomingCalibrateRollLower :: real
  mHomingRollEncoderReset :: bool
  PID_DefaultTrackingErrorTolerance :: vctDoubleVec
  m_measured_js_pid_Position :: vctDoubleVec
  m_setpoint_js_pid_Position :: vctDoubleVec
  m_measured_js_kin_Position :: vctDoubleVec
  m_measured_js_kin_Velocity :: vctDoubleVec
  m_measured_cp_local_frame :: vctFrm4x4
  CartesianPositionFrm :: vctFrm4x4
  m_effort_orientation_locked :: bool
  mEffortOrientation :: vctMatRot3
  mEffortOrientationJoint :: vctDoubleVec
  mWrenchType :: WrenchType
  StateGripper_Position :: real
  GripperClosed :: bool
  sent :: "action list"

definition emit :: "action \<Rightarrow> MTM \<Rightarrow> MTM" where
  "emit a s = s\<lparr>sent := sent s @ [a]\<rparr>"

text \<open>Modelled from the spec: \<^verbatim>\<open>SetPositionJointLocal\<close> of the base class (not part of the
  source file) sends the per-cycle joint position command to the servo.\<close>
definition SetPositionJointLocal :: "vctDoubleVec \<Rightarrow> MTM \<Rightarrow> MTM" where
  "SetPositionJointLocal q s = emit (PID_SetPositionJoint q) s"

text \<open>Modelled from the spec: \<^verbatim>\<open>SetControlSpaceAndMode\<close> of the base class (not part of
  the source file) selects the control space and mode.\<close>
definition SetControlSpaceAndMode :: "ControlSpace \<Rightarrow> ControlMode \<Rightarrow> MTM \<Rightarrow> MTM" where
  "SetControlSpaceAndMode sp m s = emit (ControlSpaceAndMode sp m) s"

text \<open>Modelled from the spec: \<^verbatim>\<open>SetDesiredState\<close> of the base class (not part of the source
  file) redirects the arm: the state machine's desired state becomes the given one.\<close>
definition SetDesiredState :: "StateType \<Rightarrow> MTM \<Rightarrow> MTM" where
  "SetDesiredState st s = s\<lparr>mArmState_desired := st\<rparr>"

text \<open>Modelled from the spec: \<^verbatim>\<open>mArmState.DesiredStateIsNotCurrent\<close> (cisst state machine,
  not part of the source file) tells whether a state change is pending.\<close>
definition DesiredStateIsNotCurrent :: "MTM \<Rightarrow> bool" where
  "DesiredStateIsNotCurrent s = (mArmState_desired s \<noteq> mArmState_current s)"

section \<open>Inverse kinematics\<close>

text \<open>The adjustment of the seed that \<^verbatim>\<open>InverseKinematics\<close> makes before it calls the
  solver (source lines 146 to 161).\<close>
definition InverseKinematics_seed :: "MTM \<Rightarrow> vctDoubleVec \<Rightarrow> vctDoubleVec" where
  "InverseKinematics_seed s jointSet =
     (if mKinematicType s = MTM_ITERATIVE then
        (let js = jointSet[3 := jointSet ! 3 + jointSet ! 5 * cos (jointSet ! 4)];
             q3Max = link3_PositionMax (Manipulator s);
             q3Min = link3_PositionMin (Manipulator s)
         in if js ! 3 > q3Max then js[3 := q3Max]
            else if js ! 3 < q3Min then js[3 := q3Min]
            else js)
      else jointSet)"

text \<open>\<^verbatim>\<open>InverseKinematics\<close> returns the error code and the contents of \<^verbatim>\<open>jointSet\<close>, which
  the source passes by reference.\<close>
definition InverseKinematics :: "MTM \<Rightarrow> vctDoubleVec \<Rightarrow> vctFrm4x4 \<Rightarrow> Errno \<times> vctDoubleVec" where
  "InverseKinematics s jointSet cartesianGoal =
     (let (rc, js) =
            solver_InverseKinematics (Manipulator s) (InverseKinematics_seed s jointSet)
              cartesianGoal
      in if rc = ESUCCESS then
           (let difference = m_measured_js_kin_Position s ! JNT_WRIST_ROLL - js ! JNT_WRIST_ROLL;
                differenceInTurns = nearbyint (difference / (2 * cmnPI))
            in (ESUCCESS,
                js[JNT_WRIST_ROLL := js ! JNT_WRIST_ROLL + differenceInTurns * 2 * cmnPI]))
         else (EFAILURE, js))"

section \<open>Gripper feedback\<close>

text \<open>\<^verbatim>\<open>GetRobotData\<close>: the argument is the outcome of reading the analog inputs, \<open>None\<close>
  when the read fails and otherwise the element of the gripper. The base class's own
  \<^verbatim>\<open>GetRobotData\<close>, called first, is not part of the source file.\<close>
definition GetRobotData :: "real option \<Rightarrow> MTM \<Rightarrow> MTM" where
  "GetRobotData analog s =
     (if m_simulated s then s
      else case analog of
        None \<Rightarrow> s
      | Some position \<Rightarrow>
          (let s1 = s\<lparr>StateGripper_Position := position\<rparr>
           in if GripperClosed s1 then
                (if position > 0 then
                   emit (GripperEvents_GripperClosed False) (s1\<lparr>GripperClosed := False\<rparr>)
                 else s1)
              else
                (if position < 0 then
                   emit GripperEvents_GripperPinch
                     (emit (GripperEvents_GripperClosed True) (s1\<lparr>GripperClosed := True\<rparr>))
                 else s1)))"

section \<open>Calibration of the roll joint\<close>

definition SetGoalHomingArm :: "MTM \<Rightarrow> MTM" where
  "SetGoalHomingArm s =
     (let s1 = s\<lparr>traj_Goal := vct_SetAll 0 (traj_Goal s)\<rparr>
      in if \<not> (mHomedOnce s1 \<or> mAllEncodersBiased s1) then
           s1\<lparr>traj_Goal :=
                (traj_Goal s1)[JNT_WRIST_ROLL := m_setpoint_js_pid_Position s1 ! JNT_WRIST_ROLL]\<rparr>
         else s1)"

definition EnterCalibratingRoll :: "MTM \<Rightarrow> MTM" where
  "EnterCalibratingRoll s =
     (if m_simulated s \<or> mHomedOnce s \<or> mAllEncodersBiased s then s
      else
        (let maxTrackingError = 1 * cmnPI;
             maxRollRange = 6 * cmnPI + maxTrackingError;
             tol = (PID_DefaultTrackingErrorTolerance s)[JNT_WRIST_ROLL := 1.5 * maxRollRange];
             s1 = emit (PID_SetTrackingErrorTolerance tol)
                    (s\<lparr>PID_DefaultTrackingErrorTolerance := tol\<rparr>);
             s2 = emit (PID_SetCheckPositionLimit False) s1;
             currentRoll = m_setpoint_js_pid_Position s2 ! JNT_WRIST_ROLL;
             s3 = s2\<lparr>traj_Goal :=
                       (vct_SetAll 0 (traj_Goal s2))[JNT_WRIST_ROLL := currentRoll - maxRollRange],
                     traj_GoalVelocity := vct_SetAll 0 (traj_GoalVelocity s2),
                     traj_EndTime := 0\<rparr>;
             s4 = SetControlSpaceAndMode JOINT_SPACE TRAJECTORY_MODE s3;
             s5 = emit (PID_EnableTrackingError True) s4
         in emit (SendStatus (Name s5 @ '': looking for roll lower limit'')) s5))"

definition EnterHomingRoll :: "MTM \<Rightarrow> MTM" where
  "EnterHomingRoll s =
     (if m_simulated s \<or> mHomedOnce s \<or> mAllEncodersBiased s then s
      else
        (let s1 = s\<lparr>traj_Goal :=
                      (vct_SetAll 0 (traj_Goal s))
                        [JNT_WRIST_ROLL := mHomingCalibrateRollLower s + 480 * cmnPI_180],
                    traj_GoalVelocity := vct_SetAll 0 (traj_GoalVelocity s),
                    traj_EndTime := 0\<rparr>;
             s2 = s1\<lparr>JointVelocitySet := vct_SetAll 0 (JointVelocitySet s1)\<rparr>;
             s3 = SetControlSpaceAndMode JOINT_SPACE TRAJECTORY_MODE s2;
             s4 = emit (PID_EnableTrackingError True) s3
         in emit (SendStatus (Name s4 @ '': moving roll to center'')) s4))"

definition EnterResettingRollEncoder :: "MTM \<Rightarrow> MTM" where
  "EnterResettingRollEncoder s =
     (let s1 = s\<lparr>mHomingRollEncoderReset := False\<rparr>;
          enableJoints = (replicate NumberOfJoints True)[6 := False];
          s2 = emit (PID_EnableJoints enableJoints) s1;
          currentTime = StateTable_Tic s2
      in s2\<lparr>mHomingTimer := currentTime\<rparr>)"

text \<open>The enter callbacks that \<^verbatim>\<open>Init\<close> registers (source lines 203 to 220). A state of
  the base class has its enter callback in the base class, which is not part of the
  source file: nothing is done for it here.\<close>
definition EnterCallback :: "StateType \<Rightarrow> MTM \<Rightarrow> MTM" where
  "EnterCallback st s =
     (case st of
        CALIBRATING_ROLL \<Rightarrow> EnterCalibratingRoll s
      | HOMING_ROLL \<Rightarrow> EnterHomingRoll s
      | RESETTING_ROLL_ENCODER \<Rightarrow> EnterResettingRollEncoder s
      | _ \<Rightarrow> s)"

text \<open>Modelled from the spec: \<^verbatim>\<open>mArmState.SetCurrentState\<close> belongs to the cisst state
  machine, which is not part of the source file; it makes the given state current and
  runs that state's enter callback at once.\<close>
definition SetCurrentState :: "StateType \<Rightarrow> MTM \<Rightarrow> MTM" where
  "SetCurrentState st s = EnterCallback st (s\<lparr>mArmState_current := st\<rparr>)"

definition TransitionArmHomed :: "MTM \<Rightarrow> MTM" where
  "TransitionArmHomed s =
     (if DesiredStateIsNotCurrent s then SetCurrentState CALIBRATING_ROLL s else s)"

definition RunCalibratingRoll :: "MTM \<Rightarrow> MTM" where
  "RunCalibratingRoll s =
     (if m_simulated s \<or> mHomedOnce s \<or> mAllEncodersBiased s then
        SetCurrentState ROLL_CALIBRATED s
      else
        (let maxTrackingError = 1 * cmnPI;
             extraTime = 2 * cmn_s;
             currentTime = StateTable_Tic s;
             ev = Reflexxes_Evaluate s (JointSet s) (JointVelocitySet s) (traj_Goal s)
                    (traj_GoalVelocity s);
             s1 = s\<lparr>JointSet := ev_Position ev, JointVelocitySet := ev_Velocity ev\<rparr>;
             s2 = SetPositionJointLocal (JointSet s1) s1;
             trajectoryResult = ev_ResultValue ev
         in case trajectoryResult of
              Reflexxes_WORKING \<Rightarrow>
                (let s3 = (if traj_EndTime s2 = 0 then
                             s2\<lparr>traj_EndTime := currentTime + ev_Duration ev,
                                mHomingTimer := currentTime + ev_Duration ev\<rparr>
                           else s2);
                     trackingError =
                       \<bar>m_measured_js_pid_Position s3 ! JNT_WRIST_ROLL
                         - JointSet s3 ! JNT_WRIST_ROLL\<bar>
                 in if trackingError > maxTrackingError then
                      (let s4 = s3\<lparr>mHomingCalibrateRollLower :=
                                      m_measured_js_pid_Position s3 ! JNT_WRIST_ROLL\<rparr>;
                           s5 = s4\<lparr>JointSet :=
                                      (JointSet s4)
                                        [JNT_WRIST_ROLL :=
                                           m_measured_js_pid_Position s4 ! JNT_WRIST_ROLL]\<rparr>;
                           s6 = SetPositionJointLocal (JointSet s5) s5;
                           tol = vct_SetAll (20 * cmnPI_180) (PID_DefaultTrackingErrorTolerance s6);
                           s7 = emit (PID_SetTrackingErrorTolerance tol)
                                  (s6\<lparr>PID_DefaultTrackingErrorTolerance := tol\<rparr>);
                           s8 = emit (PID_EnableTrackingError True) s7;
                           s9 = emit (SendStatus (Name s8 @ '': found roll lower limit'')) s8
                       in SetCurrentState ROLL_CALIBRATED s9)
                    else if currentTime > mHomingTimer s3 + extraTime then
                      SetDesiredState (mFallbackState s3)
                        (emit (SendError (Name s3 @ '': unable to hit roll lower limit in time''))
                           s3)
                    else s3)
            | Reflexxes_FINAL_STATE_REACHED \<Rightarrow>
                SetDesiredState (mFallbackState s2)
                  (emit (SendError (Name s2 @ '': went past roll lower limit'')) s2)
            | Reflexxes_ERROR \<Rightarrow>
                emit (SendError (Name s2 @ '': error while evaluating trajectory'')) s2))"

definition TransitionRollCalibrated :: "MTM \<Rightarrow> MTM" where
  "TransitionRollCalibrated s =
     (if DesiredStateIsNotCurrent s then SetCurrentState HOMING_ROLL s else s)"

definition RunHomingRoll :: "MTM \<Rightarrow> MTM" where
  "RunHomingRoll s =
     (if m_simulated s \<or> mHomedOnce s \<or> mAllEncodersBiased s then
        SetCurrentState ROLL_ENCODER_RESET (s\<lparr>mHomedOnce := True\<rparr>)
      else
        (let extraTime = 2 * cmn_s;
             currentTime = StateTable_Tic s;
             ev = Reflexxes_Evaluate s (JointSet s) (JointVelocitySet s) (traj_Goal s)
                    (traj_GoalVelocity s);
             s1 = s\<lparr>JointSet := ev_Position ev, JointVelocitySet := ev_Velocity ev\<rparr>;
             s2 = SetPositionJointLocal (JointSet s1) s1;
             trajectoryResult = ev_ResultValue ev
         in case trajectoryResult of
              Reflexxes_WORKING \<Rightarrow>
                (if traj_EndTime s2 = 0 then
                   s2\<lparr>traj_EndTime := currentTime + ev_Duration ev,
                      mHomingTimer := currentTime + ev_Duration ev\<rparr>
                 else s2)
            | Reflexxes_FINAL_STATE_REACHED \<Rightarrow>
                (let s3 = s2\<lparr>traj_GoalError :=
                               vct_AbsSelf
                                 (vct_DifferenceOf (traj_Goal s2) (m_measured_js_pid_Position s2))\<rparr>;
                     isHomed = (\<not> vct_AnyGreaterOrEqual (traj_GoalError s3) (traj_GoalTolerance s3))
                 in if isHomed then SetCurrentState RESETTING_ROLL_ENCODER s3
                    else if currentTime > mHomingTimer s3 + extraTime then
                      SetDesiredState (mFallbackState s3)
                        (emit (SendError (Name s3 @ '': unable to reach home position'')) s3)
                    else s3)
            | Reflexxes_ERROR \<Rightarrow>
                emit (SendError (Name s2 @ '': error while evaluating trajectory'')) s2))"

definition RunResettingRollEncoder :: "MTM \<Rightarrow> MTM" where
  "RunResettingRollEncoder s =
     (let timeToWait = 10 * cmn_ms;
          currentTime = StateTable_Tic s
      in if \<not> mHomingRollEncoderReset s then
           (if currentTime - mHomingTimer s < timeToWait then s
            else (emit (RobotIO_ResetSingleEncoder JNT_WRIST_ROLL) s)
                   \<lparr>mHomingRollEncoderReset := True\<rparr>)
         else if currentTime - mHomingTimer s < timeToWait then s
         else
           (let s1 = s\<lparr>JointSet := vct_SetAll 0 (JointSet s)\<rparr>;
                s2 = SetPositionJointLocal (JointSet s1) s1;
                s3 = emit (PID_SetCheckPositionLimit True) s2;
                s4 = emit (PID_EnableJoints (replicate NumberOfJoints True)) s3;
                s5 = s4\<lparr>m_setpoint_js_pid_Position :=
                          vct_SetAll 0 (m_setpoint_js_pid_Position s4)\<rparr>
            in SetCurrentState ROLL_ENCODER_RESET (s5\<lparr>mHomedOnce := True\<rparr>)))"

definition TransitionRollEncoderReset :: "MTM \<Rightarrow> MTM" where
  "TransitionRollEncoderReset s =
     (if DesiredStateIsNotCurrent s then SetCurrentState READY s else s)"

text \<open>The transition and run callbacks that \<^verbatim>\<open>Init\<close> registers (source lines 200 to 226);
  the callbacks of the other states belong to the base class.\<close>
definition TransitionCallback :: "StateType \<Rightarrow> MTM \<Rightarrow> MTM" where
  "TransitionCallback st s =
     (case st of
        ARM_HOMED \<Rightarrow> TransitionArmHomed s
      | ROLL_CALIBRATED \<Rightarrow> TransitionRollCalibrated s
      | ROLL_ENCODER_RESET \<Rightarrow> TransitionRollEncoderReset s
      | _ \<Rightarrow> s)"

definition RunCallback :: "StateType \<Rightarrow> MTM \<Rightarrow> MTM" where
  "RunCallback st s =
     (case st of
        CALIBRATING_ROLL \<Rightarrow> RunCalibratingRoll s
      | HOMING_ROLL \<Rightarrow> RunHomingRoll s
      | RESETTING_ROLL_ENCODER \<Rightarrow> RunResettingRollEncoder s
      | _ \<Rightarrow> s)"

text \<open>What one control cycle reads from outside: the task clock and the measured joint
  positions.\<close>
record cycle_input =
  in_Tic :: real
  in_measured_js_pid_Position :: vctDoubleVec

text \<open>Modelled from the spec: the driver of the state machine (cisst, not part of the
  source file) runs once per control cycle; it invokes the transition callback of the
  current state and then the run callback of the state that is current after it.\<close>
definition Run :: "cycle_input \<Rightarrow> MTM \<Rightarrow> MTM" where
  "Run i s =
     (let s0 = s\<lparr>StateTable_Tic := in_Tic i,
                 m_measured_js_pid_Position := in_measured_js_pid_Position i\<rparr>;
          s1 = TransitionCallback (mArmState_current s0) s0
      in RunCallback (mArmState_current s1) s1)"

section \<open>Effort control\<close>

definition ControlEffortOrientationLocked :: "MTM \<Rightarrow> MTM" where
  "ControlEffortOrientationLocked s =
     (let jointSet = mEffortOrientationJoint s;
          s1 = s\<lparr>CartesianPositionFrm :=
                   \<lparr>Rotation = mEffortOrientation s,
                    Translation = Translation (m_measured_cp_local_frame s)\<rparr>\<rparr>;
          (rc, js) = solver_InverseKinematics (Manipulator s1) jointSet (CartesianPositionFrm s1)
      in if rc = ESUCCESS then
           (let difference = m_measured_js_pid_Position s1 ! JNT_WRIST_ROLL - js ! JNT_WRIST_ROLL;
                differenceInTurns = nearbyint (difference / (2 * cmnPI));
                js1 = js[JNT_WRIST_ROLL := js ! JNT_WRIST_ROLL + differenceInTurns * 2 * cmnPI];
                s2 = s1\<lparr>traj_Goal := vct_Ref_Assign NumberOfJointsKinematics js1 (traj_Goal s1)\<rparr>;
                ev = Reflexxes_Evaluate s2 (JointSet s2) (JointVelocitySet s2) (traj_Goal s2)
                       (traj_GoalVelocity s2);
                s3 = s2\<lparr>JointSet := ev_Position ev, JointVelocitySet := ev_Velocity ev\<rparr>
            in SetPositionJointLocal (JointSet s3) s3)
         else
           emit (SendWarning
                   (Name s1 @ '': unable to solve inverse kinematics in ControlEffortOrientationLocked''))
             s1)"

text \<open>\<^verbatim>\<open>SetControlEffortActiveJoints\<close>: the constructor of \<^verbatim>\<open>torqueMode\<close> allocates
  \<^verbatim>\<open>NumberOfJoints()\<close> elements and does not initialise them; the first argument is what
  the fresh vector holds.\<close>
definition SetControlEffortActiveJoints :: "vctBoolVec \<Rightarrow> MTM \<Rightarrow> MTM" where
  "SetControlEffortActiveJoints fresh s =
     (let torqueMode =
            (if m_effort_orientation_locked s then
               vct_Ref_SetAll 4 3 False (vct_Ref_SetAll 3 0 True fresh)
             else vct_SetAll True fresh)
      in emit (PID_EnableTorqueMode torqueMode) s)"

definition UnlockOrientation :: "vctBoolVec \<Rightarrow> MTM \<Rightarrow> MTM" where
  "UnlockOrientation fresh s =
     (if m_effort_orientation_locked s then
        SetControlEffortActiveJoints fresh (s\<lparr>m_effort_orientation_locked := False\<rparr>)
      else s)"

text \<open>\<^verbatim>\<open>ControlEffortCartesianPreload\<close> returns the contents of its two reference
  arguments, the effort vector first.\<close>
definition ControlEffortCartesianPreload ::
    "MTM \<Rightarrow> vctDoubleVec \<Rightarrow> vctDoubleVec \<Rightarrow> vctDoubleVec \<times> vctDoubleVec" where
  "ControlEffortCartesianPreload s effortPreload wrenchPreload =
     (if mWrenchType s = WRENCH_SPATIAL then
        (vct_SetAll 0 effortPreload, vct_SetAll 0 wrenchPreload)
      else
        (let effort0 = vct_SetAll 0 effortPreload;
             q = m_measured_js_kin_Position s;
             q3Increment0 = q ! 5 * cos (q ! 4);
             q3MaxIncrement = cmnPI * 0.05;
             q3Increment =
               (if q3Increment0 > q3MaxIncrement then q3MaxIncrement
                else if q3Increment0 < - q3MaxIncrement then - q3MaxIncrement
                else q3Increment0);
             q3Goal0 = q ! 3 + q3Increment;
             q3Max = link3_PositionMax (Manipulator s);
             q3Min = link3_PositionMin (Manipulator s);
             q3Goal =
               (if q3Goal0 > q3Max then q3Max
                else if q3Goal0 < q3Min then q3Min
                else q3Goal0);
             e0 = - 0.4 * (m_measured_js_kin_Position s ! 3 - q3Goal)
                  - 0.05 * m_measured_js_kin_Velocity s ! 3;
             e1 = max e0 (- 0.1);
             e2 = min e1 0.1
         in (effort0[3 := e2], vct_SetAll 0 wrenchPreload)))"

section \<open>Concrete arms and traces\<close>

text \<open>The events and the closed flag of the gripper over consecutive cycles, one entry
  per measured position.\<close>
primrec gripper_trace :: "real list \<Rightarrow> MTM \<Rightarrow> (action list \<times> bool) list" where
  "gripper_trace [] = (\<lambda>s. [])"
| "gripper_trace (p # ps) =
     (\<lambda>s. let s' = GetRobotData (Some p) (s\<lparr>sent := []\<rparr>)
          in (sent s', GripperClosed s') # gripper_trace ps s')"

text \<open>An arm in the middle of the search for the lower limit of the roll joint: the
  trajectory is still working towards a goal far below, and the measured roll position
  lags the commanded one by 14 rad. Its solver accepts every seed as the solution.\<close>
definition example_arm :: MTM where
  "example_arm =
     \<lparr>Name = ''MTML'',
      m_simulated = False,
      mHomedOnce = False,
      mAllEncodersBiased = False,
      mKinematicType = MTM_ITERATIVE,
      Manipulator =
        \<lparr>solver_InverseKinematics = (\<lambda>seed goal. (ESUCCESS, seed)),
         link3_PositionMax = 1,
         link3_PositionMin = - 1\<rparr>,
      mArmState_current = CALIBRATING_ROLL,
      mArmState_desired = READY,
      mFallbackState = BASE_STATE ''POWERED'',
      StateTable_Tic = 0,
      JointSet = [0, 0, 0, 0, 0, 0, 0],
      JointVelocitySet = [0, 0, 0, 0, 0, 0, 0],
      traj_Goal = [0, 0, 0, 0, 0, 0, - 22],
      traj_GoalVelocity = [0, 0, 0, 0, 0, 0, 0],
      traj_GoalError = [0, 0, 0, 0, 0, 0, 0],
      traj_GoalTolerance = [1, 1, 1, 1, 1, 1, 1],
      traj_EndTime = 0,
      Reflexxes_Evaluate =
        (\<lambda>p v g gv. \<lparr>ev_Position = g, ev_Velocity = gv,
                      ev_ResultValue = Reflexxes_WORKING, ev_Duration = 1\<rparr>),
      mHomingTimer = 0,
      mHomingCalibrateRollLower = 0,
      mHomingRollEncoderReset = False,
      PID_DefaultTrackingErrorTolerance = [1, 1, 1, 1, 1, 1, 33],
      m_measured_js_pid_Position = [0, 0, 0, 0, 0, 0, - 8],
      m_setpoint_js_pid_Position = [0, 0, 0, 0, 0, 0, 0],
      m_measured_js_kin_Position = [0, 0, 0, 5, 0, 0, 0],
      m_measured_js_kin_Velocity = [0, 0, 0, 0, 0, 0, 0],
      m_measured_cp_local_frame =
        \<lparr>Rotation = ((1, 0, 0), (0, 1, 0), (0, 0, 1)), Translation = (0, 0, 0)\<rparr>,
      CartesianPositionFrm =
        \<lparr>Rotation = ((1, 0, 0), (0, 1, 0), (0, 0, 1)), Translation = (0, 0, 0)\<rparr>,
      m_effort_orientation_locked = True,
      mEffortOrientation = ((1, 0, 0), (0, 1, 0), (0, 0, 1)),
      mEffortOrientationJoint = [1, 1, 1, 1, 1, 1, 0],
      mWrenchType = WRENCH_BODY,
      StateGripper_Position = 0,
      GripperClosed = False,
      sent = []\<rparr>"

text \<open>The same arm with a trajectory generator that reports an error and leaves the
  position and velocity it was given.\<close>
definition example_error :: MTM where
  "example_error =
     example_arm\<lparr>Reflexxes_Evaluate :=
       (\<lambda>p v g gv. \<lparr>ev_Position = p, ev_Velocity = v,
                     ev_ResultValue = Reflexxes_ERROR, ev_Duration = 0\<rparr>)\<rparr>"

text \<open>The same arm with a solver that fails while the measured Cartesian position is the
  origin and succeeds elsewhere, returning the seed.\<close>
definition example_locked :: MTM where
  "example_locked =
     example_arm\<lparr>Manipulator :=
       \<lparr>solver_InverseKinematics =
          (\<lambda>seed goal. if Translation goal = (0, 0, 0) then (EFAILURE, seed)
                       else (ESUCCESS, seed)),
        link3_PositionMax = 1,
        link3_PositionMin = - 1\<rparr>\<rparr>"

definition example_input :: cycle_input where
  "example_input = \<lparr>in_Tic = 1, in_measured_js_pid_Position = [0, 0, 0, 0, 0, 0, 0]\<rparr>"

section \<open>Gripper edge detection\<close>

text \<open>
  C8. Starting from the open state, the gripper positions 0.5, 0.5, -0.1, -0.1, 0.6 fed
  through the per-cycle update give no event on the first, second and fourth sample, the
  closed event with payload true followed by the pinch event on the third sample, and
  the closed event with payload false (the only transition from closed to open) on the
  fifth; the gripper is closed after the third and fourth sample only.
\<close>
theorem gripper_edge_sequence:
  "gripper_trace [0.5, 0.5, - 0.1, - 0.1, 0.6] (s\<lparr>m_simulated := False, GripperClosed := False\<rparr>) =
     [([], False),
      ([], False),
      ([GripperEvents_GripperClosed True, GripperEvents_GripperPinch], True),
      ([], True),
      ([GripperEvents_GripperClosed False], False)]"
  by (simp add: GetRobotData_def Let_def emit_def)

text \<open>
  C10. When the measured gripper position is exactly 0 the closed flag keeps its value
  and nothing is sent, whatever the state was: no closed, open or pinch event.
\<close>
theorem gripper_zero_position:
  "GripperClosed (GetRobotData (Some 0) s) = GripperClosed s
   \<and> sent (GetRobotData (Some 0) s) = sent s"
  by (simp add: GetRobotData_def Let_def)

section \<open>Roll-turn continuity\<close>

lemma nearbyint_close: "\<bar>x - nearbyint x\<bar> \<le> 1 / 2"
  unfolding nearbyint_def Let_def by (auto; linarith)

lemma nearbyint_int: "\<exists>n::int. nearbyint x = of_int n"
  unfolding nearbyint_def Let_def by blast

lemma nearbyint_nearest: "\<bar>x - nearbyint x\<bar> \<le> \<bar>x - of_int (k::int)\<bar>"
proof -
  obtain n :: int where n: "nearbyint x = of_int n"
    using nearbyint_int by blast
  show ?thesis
  proof (cases "k = n")
    case True
    then show ?thesis by (simp add: n)
  next
    case False
    then have "1 \<le> \<bar>k - n\<bar>" by linarith
    then have "(1::real) \<le> \<bar>of_int k - of_int n\<bar>"
      by (metis of_int_1_le_iff of_int_abs of_int_diff)
    with nearbyint_close [of x] show ?thesis
      unfolding n by linarith
  qed
qed

lemma turns_distance: "\<bar>p - (q + t * (2 * pi))\<bar> = 2 * pi * \<bar>(p - q) / (2 * pi) - t\<bar>"
proof -
  have "p - (q + t * (2 * pi)) = 2 * pi * ((p - q) / (2 * pi) - t)"
    by (simp add: field_simps)
  then show ?thesis by (simp add: abs_mult)
qed

text \<open>The correction both functions apply to a raw roll solution \<open>q\<close> given the measured
  roll \<open>p\<close>: it stays in the class of \<open>q\<close> modulo a full turn, ends within half a turn
  of \<open>p\<close>, and no other member of the class is closer to \<open>p\<close>.\<close>
lemma roll_correction:
  fixes p q :: real
  defines "r \<equiv> q + nearbyint ((p - q) / (2 * cmnPI)) * 2 * cmnPI"
  shows "(\<exists>n::int. r = q + of_int n * (2 * pi))
       \<and> \<bar>p - r\<bar> \<le> pi
       \<and> (\<forall>k::int. \<bar>p - r\<bar> \<le> \<bar>p - (q + of_int k * (2 * pi))\<bar>)"
proof -
  let ?x = "(p - q) / (2 * pi)"
  have r: "r = q + nearbyint ?x * (2 * pi)"
    by (simp add: r_def cmnPI_def mult.assoc)
  obtain n :: int where n: "nearbyint ?x = of_int n"
    using nearbyint_int by blast
  have d: "\<bar>p - r\<bar> = 2 * pi * \<bar>?x - nearbyint ?x\<bar>"
    unfolding r by (rule turns_distance)
  have "2 * pi * \<bar>?x - nearbyint ?x\<bar> \<le> 2 * pi * (1 / 2)"
    by (rule mult_left_mono [OF nearbyint_close]) simp
  then have le_pi: "\<bar>p - r\<bar> \<le> pi"
    using d by simp
  have nearest: "\<bar>p - r\<bar> \<le> \<bar>p - (q + of_int k * (2 * pi))\<bar>" for k :: int
  proof -
    have "2 * pi * \<bar>?x - nearbyint ?x\<bar> \<le> 2 * pi * \<bar>?x - of_int k\<bar>"
      by (rule mult_left_mono [OF nearbyint_nearest]) simp
    then show ?thesis
      using d turns_distance [of p q "of_int k"] by simp
  qed
  have "\<exists>m::int. r = q + of_int m * (2 * pi)"
    using n r by auto
  with le_pi nearest show ?thesis by blast
qed

lemma InverseKinematics_success:
  assumes "solver_InverseKinematics (Manipulator s) (InverseKinematics_seed s jointSet) goal
             = (ESUCCESS, q)"
      and "JNT_WRIST_ROLL < length q"
  shows "InverseKinematics s jointSet goal =
           (ESUCCESS,
            q[JNT_WRIST_ROLL :=
                q ! JNT_WRIST_ROLL
                + nearbyint ((m_measured_js_kin_Position s ! JNT_WRIST_ROLL - q ! JNT_WRIST_ROLL)
                             / (2 * cmnPI)) * 2 * cmnPI])"
  using assms by (simp add: InverseKinematics_def Let_def)

lemma ControlEffortOrientationLocked_goal:
  assumes "solver_InverseKinematics (Manipulator s) (mEffortOrientationJoint s)
             \<lparr>Rotation = mEffortOrientation s,
              Translation = Translation (m_measured_cp_local_frame s)\<rparr> = (ESUCCESS, q)"
      and "length q = NumberOfJointsKinematics"
  shows "traj_Goal (ControlEffortOrientationLocked s) ! JNT_WRIST_ROLL =
           q ! JNT_WRIST_ROLL
           + nearbyint ((m_measured_js_pid_Position s ! JNT_WRIST_ROLL - q ! JNT_WRIST_ROLL)
                        / (2 * cmnPI)) * 2 * cmnPI"
  using assms
  by (simp add: ControlEffortOrientationLocked_def Let_def SetPositionJointLocal_def emit_def
      vct_Ref_Assign_def NumberOfJointsKinematics_def JNT_WRIST_ROLL_def nth_append)

text \<open>
  C1. After a successful solve the roll joint is corrected by whole turns towards the
  measured roll. In \<^verbatim>\<open>InverseKinematics\<close>, when the solver succeeds with the joint vector
  \<open>q\<close>, the call succeeds and the roll element it returns differs from that of \<open>q\<close> by a
  whole number of turns, lies within \<open>\<pi>\<close> of the measured roll, and is at least as close
  to it as every other member of its class modulo \<open>2\<pi>\<close>. In
  \<^verbatim>\<open>ControlEffortOrientationLocked\<close> the same holds of the roll element of the trajectory
  goal it sets.
\<close>
theorem roll_turn_continuity:
  "(solver_InverseKinematics (Manipulator s) (InverseKinematics_seed s jointSet) goal
      = (ESUCCESS, q)
    \<and> JNT_WRIST_ROLL < length q \<longrightarrow>
      fst (InverseKinematics s jointSet goal) = ESUCCESS
    \<and> (\<exists>n::int. snd (InverseKinematics s jointSet goal) ! JNT_WRIST_ROLL
                  = q ! JNT_WRIST_ROLL + of_int n * (2 * pi))
    \<and> \<bar>m_measured_js_kin_Position s ! JNT_WRIST_ROLL
        - snd (InverseKinematics s jointSet goal) ! JNT_WRIST_ROLL\<bar> \<le> pi
    \<and> (\<forall>k::int. \<bar>m_measured_js_kin_Position s ! JNT_WRIST_ROLL
                   - snd (InverseKinematics s jointSet goal) ! JNT_WRIST_ROLL\<bar>
                 \<le> \<bar>m_measured_js_kin_Position s ! JNT_WRIST_ROLL
                      - (q ! JNT_WRIST_ROLL + of_int k * (2 * pi))\<bar>))
   \<and> (solver_InverseKinematics (Manipulator s) (mEffortOrientationJoint s)
         \<lparr>Rotation = mEffortOrientation s,
          Translation = Translation (m_measured_cp_local_frame s)\<rparr> = (ESUCCESS, q')
       \<and> length q' = NumberOfJointsKinematics \<longrightarrow>
         (\<exists>n::int. traj_Goal (ControlEffortOrientationLocked s) ! JNT_WRIST_ROLL
                     = q' ! JNT_WRIST_ROLL + of_int n * (2 * pi))
       \<and> \<bar>m_measured_js_pid_Position s ! JNT_WRIST_ROLL
           - traj_Goal (ControlEffortOrientationLocked s) ! JNT_WRIST_ROLL\<bar> \<le> pi
       \<and> (\<forall>k::int. \<bar>m_measured_js_pid_Position s ! JNT_WRIST_ROLL
                      - traj_Goal (ControlEffortOrientationLocked s) ! JNT_WRIST_ROLL\<bar>
                    \<le> \<bar>m_measured_js_pid_Position s ! JNT_WRIST_ROLL
                         - (q' ! JNT_WRIST_ROLL + of_int k * (2 * pi))\<bar>))"
proof (intro conjI impI; elim conjE)
  assume a: "solver_InverseKinematics (Manipulator s) (InverseKinematics_seed s jointSet) goal
               = (ESUCCESS, q)"
     and l: "JNT_WRIST_ROLL < length q"
  note e = InverseKinematics_success [OF a l]
  note c = roll_correction [of "q ! JNT_WRIST_ROLL" "m_measured_js_kin_Position s ! JNT_WRIST_ROLL"]
  show "fst (InverseKinematics s jointSet goal) = ESUCCESS"
    by (simp add: e)
  show "\<exists>n::int. snd (InverseKinematics s jointSet goal) ! JNT_WRIST_ROLL
                  = q ! JNT_WRIST_ROLL + of_int n * (2 * pi)"
    using c l by (simp add: e)
  show "\<bar>m_measured_js_kin_Position s ! JNT_WRIST_ROLL
        - snd (InverseKinematics s jointSet goal) ! JNT_WRIST_ROLL\<bar> \<le> pi"
    using c l by (simp add: e)
  show "\<forall>k::int. \<bar>m_measured_js_kin_Position s ! JNT_WRIST_ROLL
                   - snd (InverseKinematics s jointSet goal) ! JNT_WRIST_ROLL\<bar>
                 \<le> \<bar>m_measured_js_kin_Position s ! JNT_WRIST_ROLL
                      - (q ! JNT_WRIST_ROLL + of_int k * (2 * pi))\<bar>"
    using c l by (simp add: e)
next
  assume a: "solver_InverseKinematics (Manipulator s) (mEffortOrientationJoint s)
         \<lparr>Rotation = mEffortOrientation s,
          Translation = Translation (m_measured_cp_local_frame s)\<rparr> = (ESUCCESS, q')"
     and l: "length q' = NumberOfJointsKinematics"
  note e = ControlEffortOrientationLocked_goal [OF a l]
  note c = roll_correction [of "q' ! JNT_WRIST_ROLL" "m_measured_js_pid_Position s ! JNT_WRIST_ROLL"]
  show "\<exists>n::int. traj_Goal (ControlEffortOrientationLocked s) ! JNT_WRIST_ROLL
                     = q' ! JNT_WRIST_ROLL + of_int n * (2 * pi)"
    using c by (simp add: e)
  show "\<bar>m_measured_js_pid_Position s ! JNT_WRIST_ROLL
           - traj_Goal (ControlEffortOrientationLocked s) ! JNT_WRIST_ROLL\<bar> \<le> pi"
    using c by (simp add: e)
  show "\<forall>k::int. \<bar>m_measured_js_pid_Position s ! JNT_WRIST_ROLL
                      - traj_Goal (ControlEffortOrientationLocked s) ! JNT_WRIST_ROLL\<bar>
                    \<le> \<bar>m_measured_js_pid_Position s ! JNT_WRIST_ROLL
                         - (q' ! JNT_WRIST_ROLL + of_int k * (2 * pi))\<bar>"
    using c by (simp add: e)
qed

lemma nearbyint_two_turns: "nearbyint ((0 - (1 + 4 * pi)) / (2 * pi)) = - 2"
proof -
  have x: "(0 - (1 + 4 * pi)) / (2 * pi) = - 3 + (1 - 1 / (2 * pi))"
    by (simp add: field_simps)
  have f: "\<lfloor>(0 - (1 + 4 * pi)) / (2 * pi)\<rfloor> = - 3"
  proof (rule floor_unique)
    show "of_int (- 3) \<le> (0 - (1 + 4 * pi)) / (2 * pi)"
      unfolding x using pi_ge_two by (simp add: field_simps)
    show "(0 - (1 + 4 * pi)) / (2 * pi) < of_int (- 3) + 1"
      unfolding x by simp
  qed
  have "1 / 2 < (0 - (1 + 4 * pi)) / (2 * pi) - of_int (- 3)"
    unfolding x using pi_ge_two by (simp add: field_simps)
  then show ?thesis
    unfolding nearbyint_def Let_def f by simp
qed

text \<open>A raw solution two turns and one radian above a measured roll of 0 is brought
  back to one radian; the locked arm, whose measured roll is -8, gets a goal within
  \<open>\<pi>\<close> of it.\<close>
theorem roll_turn_continuity_witness:
  "fst (InverseKinematics example_arm [0, 0, 0, 0, 0, 0, 1 + 4 * pi] (m_measured_cp_local_frame example_arm)) = ESUCCESS
   \<and> snd (InverseKinematics example_arm [0, 0, 0, 0, 0, 0, 1 + 4 * pi] (m_measured_cp_local_frame example_arm)) ! JNT_WRIST_ROLL = 1
   \<and> \<bar>0 - snd (InverseKinematics example_arm [0, 0, 0, 0, 0, 0, 1 + 4 * pi] (m_measured_cp_local_frame example_arm)) ! JNT_WRIST_ROLL\<bar> \<le> pi
   \<and> \<bar>- 8 - traj_Goal (ControlEffortOrientationLocked example_arm) ! JNT_WRIST_ROLL\<bar> \<le> pi"
proof -
  let ?g = "m_measured_cp_local_frame example_arm"
  let ?q = "[0, 0, 0, 0, 0, 0, 1 + 4 * pi]"
  have seed: "InverseKinematics_seed example_arm ?q = ?q"
    by (simp add: InverseKinematics_seed_def example_arm_def Let_def)
  have a: "solver_InverseKinematics (Manipulator example_arm)
             (InverseKinematics_seed example_arm ?q) ?g = (ESUCCESS, ?q)"
    unfolding seed by (simp add: example_arm_def)
  have l: "JNT_WRIST_ROLL < length ?q"
    by (simp add: JNT_WRIST_ROLL_def)
  have b: "solver_InverseKinematics (Manipulator example_arm) (mEffortOrientationJoint example_arm)
         \<lparr>Rotation = mEffortOrientation example_arm,
          Translation = Translation (m_measured_cp_local_frame example_arm)\<rparr>
          = (ESUCCESS, [1, 1, 1, 1, 1, 1, 0])"
    by (simp add: example_arm_def)
  have m: "length [1, 1, 1, 1, 1, 1, 0 :: real] = NumberOfJointsKinematics"
    by (simp add: NumberOfJointsKinematics_def)
  have p: "m_measured_js_kin_Position example_arm ! JNT_WRIST_ROLL = 0"
    "m_measured_js_pid_Position example_arm ! JNT_WRIST_ROLL = - 8"
    by (simp_all add: example_arm_def JNT_WRIST_ROLL_def)
  have "?q ! JNT_WRIST_ROLL = 1 + 4 * pi"
    by (simp add: JNT_WRIST_ROLL_def)
  then have v: "snd (InverseKinematics example_arm ?q ?g) ! JNT_WRIST_ROLL = 1"
    using l by (simp only: InverseKinematics_success [OF a l] p cmnPI_def nearbyint_two_turns snd_conv
        nth_list_update_eq)
  from roll_turn_continuity [of example_arm ?q ?g ?q "[1, 1, 1, 1, 1, 1, 0]"]
    a l b m p v
  show ?thesis by simp
qed


section \<open>Calibration: detection of the hard stop\<close>

lemma RunCalibratingRoll_working:
  assumes "\<not> (m_simulated s \<or> mHomedOnce s \<or> mAllEncodersBiased s)"
      and "mArmState_current s = CALIBRATING_ROLL"
      and "ev = Reflexxes_Evaluate s (JointSet s) (JointVelocitySet s) (traj_Goal s)
                  (traj_GoalVelocity s)"
      and "ev_ResultValue ev = Reflexxes_WORKING"
      and "measured = m_measured_js_pid_Position s ! JNT_WRIST_ROLL"
      and "commanded = ev_Position ev ! JNT_WRIST_ROLL"
  shows "(pi < \<bar>measured - commanded\<bar> \<longrightarrow>
           mArmState_current (RunCalibratingRoll s) = ROLL_CALIBRATED
         \<and> mHomingCalibrateRollLower (RunCalibratingRoll s) = measured
         \<and> JointSet (RunCalibratingRoll s) = (ev_Position ev)[JNT_WRIST_ROLL := measured]
         \<and> PID_DefaultTrackingErrorTolerance (RunCalibratingRoll s)
             = replicate (length (PID_DefaultTrackingErrorTolerance s)) (20 * cmnPI_180)
         \<and> sent (RunCalibratingRoll s) = sent s @
             [PID_SetPositionJoint (ev_Position ev),
              PID_SetPositionJoint ((ev_Position ev)[JNT_WRIST_ROLL := measured]),
              PID_SetTrackingErrorTolerance
                (replicate (length (PID_DefaultTrackingErrorTolerance s)) (20 * cmnPI_180)),
              PID_EnableTrackingError True,
              SendStatus (Name s @ '': found roll lower limit'')])
       \<and> (\<bar>measured - commanded\<bar> \<le> pi \<longrightarrow>
           mArmState_current (RunCalibratingRoll s) = CALIBRATING_ROLL
         \<and> mHomingCalibrateRollLower (RunCalibratingRoll s) = mHomingCalibrateRollLower s)"
  using assms
  by (simp add: RunCalibratingRoll_def Let_def SetPositionJointLocal_def emit_def
      SetCurrentState_def EnterCallback_def SetDesiredState_def vct_SetAll_def cmnPI_def)

lemma tolerance_tighter: "20 * cmnPI_180 < 1.5 * (6 * cmnPI + 1 * cmnPI)"
  by (simp add: cmnPI_def cmnPI_180_def)

text \<open>
  C2. In a cycle of CALIBRATING_ROLL that is not skipped and in which the trajectory
  reports WORKING: if the measured roll position differs from the commanded one (the
  roll position the trajectory has just produced) by more than \<open>\<pi>\<close>, then within this
  cycle the measured position is recorded as the lower limit, the setpoint is sent again
  with the roll element replaced by the measured position, the tracking-error tolerance
  of every joint becomes 20 degrees (below the 1.5 * 7\<open>\<pi>\<close> set for the roll joint on
  entry) and is sent with supervision enabled, and the state becomes ROLL_CALIBRATED. If
  the difference is at most \<open>\<pi>\<close> the state stays CALIBRATING_ROLL and no limit is
  recorded, so the detection happens at the first cycle that exceeds the threshold.
\<close>
theorem hard_stop_detection:
  assumes "\<not> (m_simulated s \<or> mHomedOnce s \<or> mAllEncodersBiased s)"
      and "mArmState_current s = CALIBRATING_ROLL"
      and "ev = Reflexxes_Evaluate s (JointSet s) (JointVelocitySet s) (traj_Goal s)
                  (traj_GoalVelocity s)"
      and "ev_ResultValue ev = Reflexxes_WORKING"
      and "measured = m_measured_js_pid_Position s ! JNT_WRIST_ROLL"
      and "commanded = ev_Position ev ! JNT_WRIST_ROLL"
  shows "(pi < \<bar>measured - commanded\<bar> \<longrightarrow>
           mArmState_current (RunCalibratingRoll s) = ROLL_CALIBRATED
         \<and> mHomingCalibrateRollLower (RunCalibratingRoll s) = measured
         \<and> JointSet (RunCalibratingRoll s) = (ev_Position ev)[JNT_WRIST_ROLL := measured]
         \<and> PID_DefaultTrackingErrorTolerance (RunCalibratingRoll s)
             = replicate (length (PID_DefaultTrackingErrorTolerance s)) (20 * cmnPI_180)
         \<and> sent (RunCalibratingRoll s) = sent s @
             [PID_SetPositionJoint (ev_Position ev),
              PID_SetPositionJoint ((ev_Position ev)[JNT_WRIST_ROLL := measured]),
              PID_SetTrackingErrorTolerance
                (replicate (length (PID_DefaultTrackingErrorTolerance s)) (20 * cmnPI_180)),
              PID_EnableTrackingError True,
              SendStatus (Name s @ '': found roll lower limit'')])
       \<and> (\<bar>measured - commanded\<bar> \<le> pi \<longrightarrow>
           mArmState_current (RunCalibratingRoll s) = CALIBRATING_ROLL
         \<and> mHomingCalibrateRollLower (RunCalibratingRoll s) = mHomingCalibrateRollLower s)
       \<and> 20 * cmnPI_180 < 1.5 * (6 * cmnPI + 1 * cmnPI)"
  using RunCalibratingRoll_working [OF assms] tolerance_tighter by blast

lemma example_arm_not_skipped:
  "\<not> (m_simulated example_arm \<or> mHomedOnce example_arm \<or> mAllEncodersBiased example_arm)"
  by (simp add: example_arm_def)

lemma example_arm_state:
  "mArmState_current example_arm = CALIBRATING_ROLL"
  "mArmState_desired example_arm = READY"
  "mFallbackState example_arm = BASE_STATE ''POWERED''"
  "sent example_arm = []"
  "Name example_arm = ''MTML''"
  "JointSet example_arm = [0, 0, 0, 0, 0, 0, 0]"
  "mHomingCalibrateRollLower example_arm = 0"
  "PID_DefaultTrackingErrorTolerance example_arm = [1, 1, 1, 1, 1, 1, 33]"
  by (simp_all add: example_arm_def)

lemma example_arm_evaluate:
  "Reflexxes_Evaluate example_arm (JointSet example_arm) (JointVelocitySet example_arm)
     (traj_Goal example_arm) (traj_GoalVelocity example_arm) =
   \<lparr>ev_Position = [0, 0, 0, 0, 0, 0, - 22], ev_Velocity = [0, 0, 0, 0, 0, 0, 0],
    ev_ResultValue = Reflexxes_WORKING, ev_Duration = 1\<rparr>"
  by (simp add: example_arm_def)

text \<open>The measured roll is at -8 while the trajectory commands -22: the stop is detected
  and -8 becomes the lower limit and the commanded roll.\<close>
theorem hard_stop_detection_witness:
  "mArmState_current (RunCalibratingRoll example_arm) = ROLL_CALIBRATED
   \<and> mHomingCalibrateRollLower (RunCalibratingRoll example_arm) = - 8
   \<and> JointSet (RunCalibratingRoll example_arm) = [0, 0, 0, 0, 0, 0, - 8]
   \<and> sent (RunCalibratingRoll example_arm) =
        [PID_SetPositionJoint [0, 0, 0, 0, 0, 0, - 22],
         PID_SetPositionJoint [0, 0, 0, 0, 0, 0, - 8],
         PID_SetTrackingErrorTolerance (replicate 7 (20 * cmnPI_180)),
         PID_EnableTrackingError True,
         SendStatus ''MTML: found roll lower limit'']"
proof -
  let ?ev = "\<lparr>ev_Position = [0, 0, 0, 0, 0, 0, - 22], ev_Velocity = [0, 0, 0, 0, 0, 0, 0],
    ev_ResultValue = Reflexxes_WORKING, ev_Duration = 1\<rparr>"
  have e: "?ev = Reflexxes_Evaluate example_arm (JointSet example_arm)
             (JointVelocitySet example_arm) (traj_Goal example_arm) (traj_GoalVelocity example_arm)"
    by (simp add: example_arm_evaluate)
  have w: "ev_ResultValue ?ev = Reflexxes_WORKING"
    by simp
  have m: "- 8 = m_measured_js_pid_Position example_arm ! JNT_WRIST_ROLL"
    by (simp add: example_arm_def JNT_WRIST_ROLL_def)
  have c: "- 22 = ev_Position ?ev ! JNT_WRIST_ROLL"
    by (simp add: JNT_WRIST_ROLL_def)
  have far: "pi < \<bar>- 8 - (- 22 :: real)\<bar>"
    using pi_less_4 by simp
  from hard_stop_detection [OF example_arm_not_skipped example_arm_state(1) e w m c] far
  show ?thesis
    by (simp add: example_arm_state JNT_WRIST_ROLL_def eval_nat_numeral)
qed

section \<open>Calibration: an error of the trajectory generator\<close>

lemma RunCalibratingRoll_error:
  assumes "\<not> (m_simulated s \<or> mHomedOnce s \<or> mAllEncodersBiased s)"
      and "ev = Reflexxes_Evaluate s (JointSet s) (JointVelocitySet s) (traj_Goal s)
                  (traj_GoalVelocity s)"
      and "ev_ResultValue ev = Reflexxes_ERROR"
  shows "RunCalibratingRoll s =
           s\<lparr>JointSet := ev_Position ev, JointVelocitySet := ev_Velocity ev,
             sent := sent s @
               [PID_SetPositionJoint (ev_Position ev),
                SendError (Name s @ '': error while evaluating trajectory'')]\<rparr>"
  using assms
  by (simp add: RunCalibratingRoll_def Let_def SetPositionJointLocal_def emit_def)

lemma RunHomingRoll_error:
  assumes "\<not> (m_simulated s \<or> mHomedOnce s \<or> mAllEncodersBiased s)"
      and "ev = Reflexxes_Evaluate s (JointSet s) (JointVelocitySet s) (traj_Goal s)
                  (traj_GoalVelocity s)"
      and "ev_ResultValue ev = Reflexxes_ERROR"
  shows "RunHomingRoll s =
           s\<lparr>JointSet := ev_Position ev, JointVelocitySet := ev_Velocity ev,
             sent := sent s @
               [PID_SetPositionJoint (ev_Position ev),
                SendError (Name s @ '': error while evaluating trajectory'')]\<rparr>"
  using assms
  by (simp add: RunHomingRoll_def Let_def SetPositionJointLocal_def emit_def)

lemma Run_in_CALIBRATING_ROLL:
  "mArmState_current s = CALIBRATING_ROLL \<Longrightarrow>
   Run i s = RunCalibratingRoll
               (s\<lparr>StateTable_Tic := in_Tic i,
                  m_measured_js_pid_Position := in_measured_js_pid_Position i\<rparr>)"
  by (simp add: Run_def Let_def TransitionCallback_def RunCallback_def)

lemma Run_in_HOMING_ROLL:
  "mArmState_current s = HOMING_ROLL \<Longrightarrow>
   Run i s = RunHomingRoll
               (s\<lparr>StateTable_Tic := in_Tic i,
                  m_measured_js_pid_Position := in_measured_js_pid_Position i\<rparr>)"
  by (simp add: Run_def Let_def TransitionCallback_def RunCallback_def)

lemma example_error_fields:
  "m_simulated example_error = False"
  "mHomedOnce example_error = False"
  "mAllEncodersBiased example_error = False"
  "mArmState_current example_error = CALIBRATING_ROLL"
  "mArmState_desired example_error = READY"
  "mFallbackState example_error = BASE_STATE ''POWERED''"
  "sent example_error = []"
  "Name example_error = ''MTML''"
  "JointSet example_error = [0, 0, 0, 0, 0, 0, 0]"
  "JointVelocitySet example_error = [0, 0, 0, 0, 0, 0, 0]"
  "Reflexxes_Evaluate example_error =
     (\<lambda>p v g gv. \<lparr>ev_Position = p, ev_Velocity = v,
                   ev_ResultValue = Reflexxes_ERROR, ev_Duration = 0\<rparr>)"
  by (simp_all add: example_error_def example_arm_def)

lemma error_cycle:
  assumes "m_simulated s = False" "mHomedOnce s = False" "mAllEncodersBiased s = False"
    and "Reflexxes_Evaluate s = (\<lambda>p v g gv. \<lparr>ev_Position = p, ev_Velocity = v,
                   ev_ResultValue = Reflexxes_ERROR, ev_Duration = 0\<rparr>)"
  shows "RunCalibratingRoll s = s\<lparr>sent := sent s @
               [PID_SetPositionJoint (JointSet s),
                SendError (Name s @ '': error while evaluating trajectory'')]\<rparr>"
    and "RunHomingRoll s = s\<lparr>sent := sent s @
               [PID_SetPositionJoint (JointSet s),
                SendError (Name s @ '': error while evaluating trajectory'')]\<rparr>"
proof -
  have a: "\<not> (m_simulated s \<or> mHomedOnce s \<or> mAllEncodersBiased s)"
    using assms by simp
  have b: "ev_ResultValue (Reflexxes_Evaluate s (JointSet s) (JointVelocitySet s) (traj_Goal s)
                  (traj_GoalVelocity s)) = Reflexxes_ERROR"
    by (simp add: assms(4))
  show "RunCalibratingRoll s = s\<lparr>sent := sent s @
               [PID_SetPositionJoint (JointSet s),
                SendError (Name s @ '': error while evaluating trajectory'')]\<rparr>"
    by (simp add: RunCalibratingRoll_error [OF a refl b]) (simp add: assms(4))
  show "RunHomingRoll s = s\<lparr>sent := sent s @
               [PID_SetPositionJoint (JointSet s),
                SendError (Name s @ '': error while evaluating trajectory'')]\<rparr>"
    by (simp add: RunHomingRoll_error [OF a refl b]) (simp add: assms(4))
qed

text \<open>
  C3. When the trajectory generator returns a result other than WORKING and
  FINAL_STATE_REACHED, the run callbacks of CALIBRATING_ROLL and HOMING_ROLL report the
  error, but they do not redirect the arm: unlike the time-out branches and the branch
  for a goal reached too early, the \<^verbatim>\<open>default\<close> branch never calls
  \<^verbatim>\<open>SetDesiredState(mFallbackState)\<close>. On the arm \<open>example_error\<close>, whose fallback state
  is POWERED, the desired state is still READY after the cycle, the current state is
  still the calibration state, and the next cycle evaluates the trajectory and reports
  the error again.
\<close>
theorem trajectory_error_without_fallback:
  "mFallbackState example_error = BASE_STATE ''POWERED''
   \<and> mArmState_desired (Run example_input example_error) = READY
   \<and> mArmState_current (Run example_input example_error) = CALIBRATING_ROLL
   \<and> sent (Run example_input example_error) =
        [PID_SetPositionJoint [0, 0, 0, 0, 0, 0, 0],
         SendError ''MTML: error while evaluating trajectory'']
   \<and> mArmState_desired (Run example_input (Run example_input example_error)) = READY
   \<and> mArmState_current (Run example_input (Run example_input example_error)) = CALIBRATING_ROLL
   \<and> sent (Run example_input (Run example_input example_error)) =
        [PID_SetPositionJoint [0, 0, 0, 0, 0, 0, 0],
         SendError ''MTML: error while evaluating trajectory'',
         PID_SetPositionJoint [0, 0, 0, 0, 0, 0, 0],
         SendError ''MTML: error while evaluating trajectory'']
   \<and> mArmState_desired (Run example_input (example_error\<lparr>mArmState_current := HOMING_ROLL\<rparr>)) = READY
   \<and> mArmState_current (Run example_input (example_error\<lparr>mArmState_current := HOMING_ROLL\<rparr>)) = HOMING_ROLL
   \<and> sent (Run example_input (example_error\<lparr>mArmState_current := HOMING_ROLL\<rparr>)) =
        [PID_SetPositionJoint [0, 0, 0, 0, 0, 0, 0],
         SendError ''MTML: error while evaluating trajectory'']"
proof -
  note f = example_error_fields
  let ?i = example_input
  let ?s0 = "example_error\<lparr>StateTable_Tic := in_Tic ?i,
                  m_measured_js_pid_Position := in_measured_js_pid_Position ?i\<rparr>"
  let ?out = "[PID_SetPositionJoint [0, 0, 0, 0, 0, 0, 0],
         SendError ''MTML: error while evaluating trajectory'']"
  have 1: "Run ?i example_error = ?s0\<lparr>sent := ?out\<rparr>"
    by (simp add: Run_in_CALIBRATING_ROLL f error_cycle(1))
  have 2: "Run ?i (?s0\<lparr>sent := ?out\<rparr>) = ?s0\<lparr>sent := ?out @ ?out\<rparr>"
    by (simp add: Run_in_CALIBRATING_ROLL f error_cycle(1))
  let ?h0 = "example_error\<lparr>mArmState_current := HOMING_ROLL, StateTable_Tic := in_Tic ?i,
                  m_measured_js_pid_Position := in_measured_js_pid_Position ?i\<rparr>"
  have 3: "Run ?i (example_error\<lparr>mArmState_current := HOMING_ROLL\<rparr>) = ?h0\<lparr>sent := ?out\<rparr>"
    by (simp add: Run_in_HOMING_ROLL f error_cycle(2))
  show ?thesis
    unfolding 1 2 3 by (simp add: f)
qed


section \<open>Calibration: skipping an arm that is already referenced\<close>

lemma skip_EnterCalibratingRoll:
  "mHomedOnce s \<or> mAllEncodersBiased s \<Longrightarrow>
   SetCurrentState CALIBRATING_ROLL s = s\<lparr>mArmState_current := CALIBRATING_ROLL\<rparr>"
  by (auto simp add: SetCurrentState_def EnterCallback_def EnterCalibratingRoll_def)

lemma skip_first_cycle:
  assumes "mHomedOnce s \<or> mAllEncodersBiased s"
      and "mArmState_current s = CALIBRATING_ROLL"
  shows "Run i s =
           s\<lparr>StateTable_Tic := in_Tic i,
             m_measured_js_pid_Position := in_measured_js_pid_Position i,
             mArmState_current := ROLL_CALIBRATED\<rparr>"
  using assms
  by (auto simp add: Run_def Let_def TransitionCallback_def RunCallback_def
      RunCalibratingRoll_def SetCurrentState_def EnterCallback_def)

lemma skip_second_cycle:
  assumes "mHomedOnce s \<or> mAllEncodersBiased s"
      and "mArmState_current s = ROLL_CALIBRATED"
      and "mArmState_desired s \<noteq> ROLL_CALIBRATED"
  shows "Run i s =
           s\<lparr>StateTable_Tic := in_Tic i,
             m_measured_js_pid_Position := in_measured_js_pid_Position i,
             mHomedOnce := True,
             mArmState_current := ROLL_ENCODER_RESET\<rparr>"
  using assms
  by (auto simp add: Run_def Let_def TransitionCallback_def RunCallback_def RunHomingRoll_def
      SetCurrentState_def EnterCallback_def TransitionRollCalibrated_def
      DesiredStateIsNotCurrent_def EnterHomingRoll_def)

lemma skip_third_cycle:
  assumes "mArmState_current s = ROLL_ENCODER_RESET"
      and "mArmState_desired s \<noteq> ROLL_ENCODER_RESET"
  shows "Run i s =
           s\<lparr>StateTable_Tic := in_Tic i,
             m_measured_js_pid_Position := in_measured_js_pid_Position i,
             mArmState_current := READY\<rparr>"
  using assms
  by (auto simp add: Run_def Let_def TransitionCallback_def RunCallback_def
      SetCurrentState_def EnterCallback_def TransitionRollEncoderReset_def
      DesiredStateIsNotCurrent_def)

text \<open>
  C4. Let the machine enter CALIBRATING_ROLL with \<^verbatim>\<open>mHomedOnce\<close> set or all encoders
  biased, and let a state change be pending in the two states that wait for one (the
  desired state is neither ROLL_CALIBRATED nor ROLL_ENCODER_RESET, which \<^verbatim>\<open>Init\<close> never
  registers as desired states). Then, whatever the three following cycles read, the
  machine is in ROLL_CALIBRATED after the first, in ROLL_ENCODER_RESET after the second
  and in READY after the third; on entry and in each of these cycles nothing is sent (no
  joint position command, no encoder reset, no other request), and the trajectory goal
  and the commanded joint position are the ones the machine entered with.
\<close>
theorem calibration_skip:
  assumes "mHomedOnce s0 \<or> mAllEncodersBiased s0"
      and "mArmState_desired s0 \<noteq> ROLL_CALIBRATED"
      and "mArmState_desired s0 \<noteq> ROLL_ENCODER_RESET"
  shows "mArmState_current (Run i1 (SetCurrentState CALIBRATING_ROLL s0)) = ROLL_CALIBRATED
       \<and> mArmState_current (Run i2 (Run i1 (SetCurrentState CALIBRATING_ROLL s0)))
           = ROLL_ENCODER_RESET
       \<and> mArmState_current (Run i3 (Run i2 (Run i1 (SetCurrentState CALIBRATING_ROLL s0))))
           = READY
       \<and> sent (SetCurrentState CALIBRATING_ROLL s0) = sent s0
       \<and> sent (Run i1 (SetCurrentState CALIBRATING_ROLL s0)) = sent s0
       \<and> sent (Run i2 (Run i1 (SetCurrentState CALIBRATING_ROLL s0))) = sent s0
       \<and> sent (Run i3 (Run i2 (Run i1 (SetCurrentState CALIBRATING_ROLL s0)))) = sent s0
       \<and> traj_Goal (Run i3 (Run i2 (Run i1 (SetCurrentState CALIBRATING_ROLL s0))))
           = traj_Goal s0
       \<and> JointSet (Run i3 (Run i2 (Run i1 (SetCurrentState CALIBRATING_ROLL s0))))
           = JointSet s0"
proof -
  let ?s = "SetCurrentState CALIBRATING_ROLL s0"
  have e: "?s = s0\<lparr>mArmState_current := CALIBRATING_ROLL\<rparr>"
    using assms(1) by (rule skip_EnterCalibratingRoll)
  have 1: "Run i1 ?s =
             ?s\<lparr>StateTable_Tic := in_Tic i1,
                m_measured_js_pid_Position := in_measured_js_pid_Position i1,
                mArmState_current := ROLL_CALIBRATED\<rparr>"
    by (rule skip_first_cycle) (use assms e in auto)
  have 2: "Run i2 (Run i1 ?s) =
             (Run i1 ?s)\<lparr>StateTable_Tic := in_Tic i2,
                m_measured_js_pid_Position := in_measured_js_pid_Position i2,
                mHomedOnce := True,
                mArmState_current := ROLL_ENCODER_RESET\<rparr>"
    by (rule skip_second_cycle) (use assms e 1 in auto)
  have 3: "Run i3 (Run i2 (Run i1 ?s)) =
             (Run i2 (Run i1 ?s))\<lparr>StateTable_Tic := in_Tic i3,
                m_measured_js_pid_Position := in_measured_js_pid_Position i3,
                mArmState_current := READY\<rparr>"
    by (rule skip_third_cycle) (use assms e 1 2 in auto)
  show ?thesis
    apply (simp only: 3)
    apply (simp only: 2)
    apply (simp only: 1)
    apply (simp add: e)
    done
qed

text \<open>The example arm with \<^verbatim>\<open>mHomedOnce\<close> set reaches READY in three cycles and sends
  nothing.\<close>
theorem calibration_skip_witness:
  "mArmState_current
     (Run example_input (Run example_input (Run example_input
        (SetCurrentState CALIBRATING_ROLL (example_arm\<lparr>mHomedOnce := True\<rparr>))))) = READY
   \<and> sent
       (Run example_input (Run example_input (Run example_input
          (SetCurrentState CALIBRATING_ROLL (example_arm\<lparr>mHomedOnce := True\<rparr>))))) = []
   \<and> traj_Goal
       (Run example_input (Run example_input (Run example_input
          (SetCurrentState CALIBRATING_ROLL (example_arm\<lparr>mHomedOnce := True\<rparr>)))))
       = [0, 0, 0, 0, 0, 0, - 22]"
proof -
  let ?s0 = "example_arm\<lparr>mHomedOnce := True\<rparr>"
  have h: "mHomedOnce ?s0 \<or> mAllEncodersBiased ?s0"
    by simp
  have d: "mArmState_desired ?s0 \<noteq> ROLL_CALIBRATED" "mArmState_desired ?s0 \<noteq> ROLL_ENCODER_RESET"
    by (simp_all add: example_arm_state)
  have v: "sent ?s0 = []" "traj_Goal ?s0 = [0, 0, 0, 0, 0, 0, - 22]"
    by (simp_all add: example_arm_def)
  from calibration_skip [OF h d, of example_input example_input example_input] v
  show ?thesis by simp
qed

section \<open>Orientation lock: a failed solve\<close>

lemma ControlEffortOrientationLocked_failure:
  assumes "fst (solver_InverseKinematics (Manipulator s) (mEffortOrientationJoint s)
                  \<lparr>Rotation = mEffortOrientation s,
                   Translation = Translation (m_measured_cp_local_frame s)\<rparr>) \<noteq> ESUCCESS"
  shows "ControlEffortOrientationLocked s =
           s\<lparr>CartesianPositionFrm :=
                \<lparr>Rotation = mEffortOrientation s,
                 Translation = Translation (m_measured_cp_local_frame s)\<rparr>,
             sent := sent s @
               [SendWarning
                  (Name s @
                   '': unable to solve inverse kinematics in ControlEffortOrientationLocked'')]\<rparr>"
proof -
  obtain rc js where r:
    "solver_InverseKinematics (Manipulator s) (mEffortOrientationJoint s)
       \<lparr>Rotation = mEffortOrientation s,
        Translation = Translation (m_measured_cp_local_frame s)\<rparr> = (rc, js)"
    by (cases "solver_InverseKinematics (Manipulator s) (mEffortOrientationJoint s)
                 \<lparr>Rotation = mEffortOrientation s,
                  Translation = Translation (m_measured_cp_local_frame s)\<rparr>")
  with assms have "rc \<noteq> ESUCCESS" by simp
  then show ?thesis
    by (simp add: ControlEffortOrientationLocked_def Let_def emit_def r)
qed

lemma ControlEffortOrientationLocked_success:
  assumes "fst (solver_InverseKinematics (Manipulator s) (mEffortOrientationJoint s)
                  \<lparr>Rotation = mEffortOrientation s,
                   Translation = Translation (m_measured_cp_local_frame s)\<rparr>) = ESUCCESS"
  shows "JointSet (ControlEffortOrientationLocked s) =
           ev_Position (Reflexxes_Evaluate s (JointSet s) (JointVelocitySet s)
                          (traj_Goal (ControlEffortOrientationLocked s)) (traj_GoalVelocity s))
       \<and> sent (ControlEffortOrientationLocked s) =
           sent s @ [PID_SetPositionJoint (JointSet (ControlEffortOrientationLocked s))]"
proof -
  obtain rc js where r:
    "solver_InverseKinematics (Manipulator s) (mEffortOrientationJoint s)
       \<lparr>Rotation = mEffortOrientation s,
        Translation = Translation (m_measured_cp_local_frame s)\<rparr> = (rc, js)"
    by (cases "solver_InverseKinematics (Manipulator s) (mEffortOrientationJoint s)
                 \<lparr>Rotation = mEffortOrientation s,
                  Translation = Translation (m_measured_cp_local_frame s)\<rparr>")
  with assms have "rc = ESUCCESS" by simp
  then show ?thesis
    by (simp add: ControlEffortOrientationLocked_def Let_def emit_def SetPositionJointLocal_def r)
qed

text \<open>
  C5. If the solve fails in a cycle of \<^verbatim>\<open>ControlEffortOrientationLocked\<close>, the cycle sends
  one warning and nothing else, and the commanded joint position and the trajectory goal
  keep their values. If the measurements then change (\<open>cp\<close>, \<open>q\<close>) and the solve of the
  next cycle succeeds, that cycle sets the commanded joint position to what the
  trajectory generator produces for the new goal and sends it as the joint position
  command.
\<close>
theorem orientation_lock_ik_failure:
  assumes "fst (solver_InverseKinematics (Manipulator s) (mEffortOrientationJoint s)
                  \<lparr>Rotation = mEffortOrientation s,
                   Translation = Translation (m_measured_cp_local_frame s)\<rparr>) \<noteq> ESUCCESS"
      and "s' = (ControlEffortOrientationLocked s)
                  \<lparr>m_measured_cp_local_frame := cp, m_measured_js_pid_Position := q\<rparr>"
      and "fst (solver_InverseKinematics (Manipulator s') (mEffortOrientationJoint s')
                  \<lparr>Rotation = mEffortOrientation s',
                   Translation = Translation (m_measured_cp_local_frame s')\<rparr>) = ESUCCESS"
  shows "JointSet (ControlEffortOrientationLocked s) = JointSet s
       \<and> traj_Goal (ControlEffortOrientationLocked s) = traj_Goal s
       \<and> sent (ControlEffortOrientationLocked s) = sent s @
           [SendWarning
              (Name s @ '': unable to solve inverse kinematics in ControlEffortOrientationLocked'')]
       \<and> JointSet (ControlEffortOrientationLocked s') =
           ev_Position (Reflexxes_Evaluate s (JointSet s) (JointVelocitySet s)
                          (traj_Goal (ControlEffortOrientationLocked s')) (traj_GoalVelocity s))
       \<and> sent (ControlEffortOrientationLocked s') =
           sent s' @ [PID_SetPositionJoint (JointSet (ControlEffortOrientationLocked s'))]"
proof -
  note f = ControlEffortOrientationLocked_failure [OF assms(1)]
  have "JointSet s' = JointSet s" "JointVelocitySet s' = JointVelocitySet s"
    "traj_GoalVelocity s' = traj_GoalVelocity s" "Reflexxes_Evaluate s' = Reflexxes_Evaluate s"
    by (simp_all add: assms(2) f)
  with ControlEffortOrientationLocked_success [OF assms(3)] show ?thesis
    by (simp add: f)
qed

lemma example_locked_fields:
  "Manipulator example_locked =
     \<lparr>solver_InverseKinematics =
          (\<lambda>seed goal. if Translation goal = (0, 0, 0) then (EFAILURE, seed)
                       else (ESUCCESS, seed)),
        link3_PositionMax = 1,
        link3_PositionMin = - 1\<rparr>"
  "mEffortOrientationJoint example_locked = [1, 1, 1, 1, 1, 1, 0]"
  "m_measured_cp_local_frame example_locked =
     \<lparr>Rotation = ((1, 0, 0), (0, 1, 0), (0, 0, 1)), Translation = (0, 0, 0)\<rparr>"
  "mEffortOrientation example_locked = ((1, 0, 0), (0, 1, 0), (0, 0, 1))"
  "JointSet example_locked = [0, 0, 0, 0, 0, 0, 0]"
  "JointVelocitySet example_locked = [0, 0, 0, 0, 0, 0, 0]"
  "traj_Goal example_locked = [0, 0, 0, 0, 0, 0, - 22]"
  "traj_GoalVelocity example_locked = [0, 0, 0, 0, 0, 0, 0]"
  "sent example_locked = []"
  "Name example_locked = ''MTML''"
  "Reflexxes_Evaluate example_locked =
     (\<lambda>p v g gv. \<lparr>ev_Position = g, ev_Velocity = gv,
                      ev_ResultValue = Reflexxes_WORKING, ev_Duration = 1\<rparr>)"
  by (simp_all add: example_locked_def example_arm_def)

lemma nearbyint_0: "nearbyint 0 = 0"
  by (simp add: nearbyint_def)

lemma ControlEffortOrientationLocked_goal_vector:
  assumes "solver_InverseKinematics (Manipulator s) (mEffortOrientationJoint s)
             \<lparr>Rotation = mEffortOrientation s,
              Translation = Translation (m_measured_cp_local_frame s)\<rparr> = (ESUCCESS, q)"
  shows "traj_Goal (ControlEffortOrientationLocked s) =
           vct_Ref_Assign NumberOfJointsKinematics
             (q[JNT_WRIST_ROLL :=
                  q ! JNT_WRIST_ROLL
                  + nearbyint ((m_measured_js_pid_Position s ! JNT_WRIST_ROLL - q ! JNT_WRIST_ROLL)
                               / (2 * cmnPI)) * 2 * cmnPI])
             (traj_Goal s)"
  using assms
  by (simp add: ControlEffortOrientationLocked_def Let_def SetPositionJointLocal_def emit_def)

text \<open>The solver of \<open>example_locked\<close> fails at the origin: the first cycle only warns and
  keeps the commanded position; once the measured position has moved, the next cycle
  commands the new position.\<close>
theorem orientation_lock_ik_failure_witness:
  "JointSet (ControlEffortOrientationLocked example_locked) = [0, 0, 0, 0, 0, 0, 0]
   \<and> sent (ControlEffortOrientationLocked example_locked) =
        [SendWarning ''MTML: unable to solve inverse kinematics in ControlEffortOrientationLocked'']
   \<and> JointSet
        (ControlEffortOrientationLocked
           ((ControlEffortOrientationLocked example_locked)
              \<lparr>m_measured_cp_local_frame :=
                 \<lparr>Rotation = ((1, 0, 0), (0, 1, 0), (0, 0, 1)), Translation = (1, 0, 0)\<rparr>,
               m_measured_js_pid_Position := [1, 1, 1, 1, 1, 1, 0]\<rparr>))
      = [1, 1, 1, 1, 1, 1, 0]
   \<and> sent
        (ControlEffortOrientationLocked
           ((ControlEffortOrientationLocked example_locked)
              \<lparr>m_measured_cp_local_frame :=
                 \<lparr>Rotation = ((1, 0, 0), (0, 1, 0), (0, 0, 1)), Translation = (1, 0, 0)\<rparr>,
               m_measured_js_pid_Position := [1, 1, 1, 1, 1, 1, 0]\<rparr>))
      = [SendWarning ''MTML: unable to solve inverse kinematics in ControlEffortOrientationLocked'',
         PID_SetPositionJoint [1, 1, 1, 1, 1, 1, 0]]"
proof -
  note f = example_locked_fields
  let ?cp = "\<lparr>Rotation = ((1, 0, 0), (0, 1, 0), (0, 0, 1)), Translation = (1 :: real, 0 :: real, 0 :: real)\<rparr>"
  let ?q = "[1, 1, 1, 1, 1, 1, 0 :: real]"
  let ?s' = "(ControlEffortOrientationLocked example_locked)
              \<lparr>m_measured_cp_local_frame := ?cp, m_measured_js_pid_Position := ?q\<rparr>"
  have a: "fst (solver_InverseKinematics (Manipulator example_locked)
                  (mEffortOrientationJoint example_locked)
                  \<lparr>Rotation = mEffortOrientation example_locked,
                   Translation = Translation (m_measured_cp_local_frame example_locked)\<rparr>)
             \<noteq> ESUCCESS"
    by (simp add: f)
  note e = ControlEffortOrientationLocked_failure [OF a]
  have m: "Manipulator ?s' = Manipulator example_locked"
    "mEffortOrientationJoint ?s' = mEffortOrientationJoint example_locked"
    "mEffortOrientation ?s' = mEffortOrientation example_locked"
    "m_measured_cp_local_frame ?s' = ?cp"
    "m_measured_js_pid_Position ?s' = ?q"
    "traj_Goal ?s' = traj_Goal example_locked"
    "sent ?s' = [SendWarning ''MTML: unable to solve inverse kinematics in ControlEffortOrientationLocked'']"
    by (simp_all add: e f)
  have b: "solver_InverseKinematics (Manipulator ?s') (mEffortOrientationJoint ?s')
                  \<lparr>Rotation = mEffortOrientation ?s',
                   Translation = Translation (m_measured_cp_local_frame ?s')\<rparr>
             = (ESUCCESS, ?q)"
    unfolding m by (simp add: f)
  then have b': "fst (solver_InverseKinematics (Manipulator ?s') (mEffortOrientationJoint ?s')
                  \<lparr>Rotation = mEffortOrientation ?s',
                   Translation = Translation (m_measured_cp_local_frame ?s')\<rparr>)
             = ESUCCESS"
    by simp
  have l: "length ?q = NumberOfJointsKinematics"
    by (simp add: NumberOfJointsKinematics_def)
  have g: "traj_Goal (ControlEffortOrientationLocked ?s') = ?q"
    by (simp add: ControlEffortOrientationLocked_goal_vector [OF b] m f vct_Ref_Assign_def
        NumberOfJointsKinematics_def JNT_WRIST_ROLL_def nearbyint_0)
  from orientation_lock_ik_failure [OF a refl b'] g m
  show ?thesis
    by (simp add: f)
qed


section \<open>Platform preload\<close>

lemma list_all_update: "list_all P xs \<Longrightarrow> P x \<Longrightarrow> list_all P (xs[i := x])"
  by (induction xs arbitrary: i) (auto split: nat.splits)

lemma effort_cap: "- 0.1 \<le> min (max (e::real) (- 0.1)) 0.1 \<and> min (max e (- 0.1)) 0.1 \<le> 0.1"
  by simp

lemma preload_spatial:
  "mWrenchType s = WRENCH_SPATIAL \<Longrightarrow>
   ControlEffortCartesianPreload s effortPreload wrenchPreload =
     (replicate (length effortPreload) 0, replicate (length wrenchPreload) 0)"
  by (simp add: ControlEffortCartesianPreload_def vct_SetAll_def)

text \<open>Outside the spatial mode the result is the zero vector with one element written,
  and that element has passed through both caps.\<close>
lemma preload_not_spatial:
  assumes "mWrenchType s \<noteq> WRENCH_SPATIAL"
  shows "\<exists>e. ControlEffortCartesianPreload s effortPreload wrenchPreload =
           ((replicate (length effortPreload) 0)[3 := min (max e (- 0.1)) 0.1],
            replicate (length wrenchPreload) 0)"
  using assms
  apply (simp only: ControlEffortCartesianPreload_def vct_SetAll_def Let_def if_False)
  apply (rule exI)
  apply (rule refl)
  done

lemma preload_all_capped:
  "list_all (\<lambda>e. - 0.1 \<le> e \<and> e \<le> 0.1)
     (fst (ControlEffortCartesianPreload s effortPreload wrenchPreload))"
proof (cases "mWrenchType s = WRENCH_SPATIAL")
  case True
  then show ?thesis
    by (simp add: preload_spatial list_all_length)
next
  case False
  from preload_not_spatial [OF False] obtain e where
    "ControlEffortCartesianPreload s effortPreload wrenchPreload =
       ((replicate (length effortPreload) 0)[3 := min (max e (- 0.1)) 0.1],
        replicate (length wrenchPreload) 0)"
    by blast
  moreover have "list_all (\<lambda>e::real. - 0.1 \<le> e \<and> e \<le> 0.1) (replicate (length effortPreload) 0)"
    by (simp add: list_all_length)
  ultimately show ?thesis
    using effort_cap [of e] by (simp add: list_all_update)
qed

lemma preload_platform_capped:
  assumes "3 < length effortPreload"
  shows "- 0.1 \<le> fst (ControlEffortCartesianPreload s effortPreload wrenchPreload) ! 3
       \<and> fst (ControlEffortCartesianPreload s effortPreload wrenchPreload) ! 3 \<le> 0.1"
proof (cases "mWrenchType s = WRENCH_SPATIAL")
  case True
  with assms show ?thesis
    by (simp add: preload_spatial)
next
  case False
  from preload_not_spatial [OF False] obtain e where
    "ControlEffortCartesianPreload s effortPreload wrenchPreload =
       ((replicate (length effortPreload) 0)[3 := min (max e (- 0.1)) 0.1],
        replicate (length wrenchPreload) 0)"
    by blast
  with assms show ?thesis
    using effort_cap [of e] by simp
qed

text \<open>
  C6. Whatever the measured joint positions and velocities, the joint limits and the
  wrench mode are, the effort that \<^verbatim>\<open>ControlEffortCartesianPreload\<close> computes for the
  platform joint (element 3 of the effort vector, which has to exist) lies between -0.1
  and 0.1; so does every other element of the effort vector.
\<close>
theorem preload_effort_bound:
  "(3 < length effortPreload \<longrightarrow>
      - 0.1 \<le> fst (ControlEffortCartesianPreload s effortPreload wrenchPreload) ! 3
    \<and> fst (ControlEffortCartesianPreload s effortPreload wrenchPreload) ! 3 \<le> 0.1)
   \<and> list_all (\<lambda>e. - 0.1 \<le> e \<and> e \<le> 0.1)
        (fst (ControlEffortCartesianPreload s effortPreload wrenchPreload))"
  using preload_platform_capped [of effortPreload s wrenchPreload]
    preload_all_capped [of s effortPreload wrenchPreload]
  by blast

text \<open>
  C9. In every wrench mode \<^verbatim>\<open>ControlEffortCartesianPreload\<close> returns an effort vector of
  the length it was given whose elements other than element 3 are zero, and a wrench
  vector that is zero everywhere.
\<close>
theorem preload_frame:
  "(\<forall>i < length effortPreload. i \<noteq> 3 \<longrightarrow>
       fst (ControlEffortCartesianPreload s effortPreload wrenchPreload) ! i = 0)
   \<and> length (fst (ControlEffortCartesianPreload s effortPreload wrenchPreload))
       = length effortPreload
   \<and> snd (ControlEffortCartesianPreload s effortPreload wrenchPreload)
       = replicate (length wrenchPreload) 0"
proof (cases "mWrenchType s = WRENCH_SPATIAL")
  case True
  then show ?thesis
    by (simp add: preload_spatial)
next
  case False
  from preload_not_spatial [OF False] obtain e where
    "ControlEffortCartesianPreload s effortPreload wrenchPreload =
       ((replicate (length effortPreload) 0)[3 := min (max e (- 0.1)) 0.1],
        replicate (length wrenchPreload) 0)"
    by blast
  then show ?thesis by simp
qed

section \<open>Torque-mode joint selection\<close>

text \<open>
  C7. \<^verbatim>\<open>SetControlEffortActiveJoints\<close> sends exactly one request, the torque-mode mask:
  with the orientation locked the mask is true for joints 0 to 2 and false for joints 3
  to 6, and with the orientation unlocked it is true for all seven joints, whatever the
  freshly allocated mask held.
\<close>
theorem torque_mode_selection:
  "length fresh = NumberOfJoints \<Longrightarrow>
   sent (SetControlEffortActiveJoints fresh s) = sent s @
     [PID_EnableTorqueMode
        (if m_effort_orientation_locked s
         then [True, True, True, False, False, False, False]
         else [True, True, True, True, True, True, True])]"
  by (simp add: SetControlEffortActiveJoints_def Let_def emit_def vct_Ref_SetAll_def
      vct_SetAll_def NumberOfJoints_def eval_nat_numeral)

section \<open>The preload and the torque-mode mask on the example arm\<close>

text \<open>The platform joint of the example arm is measured at 5, far above its upper limit
  1: the proportional term asks for -1.6 and the cap leaves -0.1.\<close>
lemma example_arm_preload:
  "ControlEffortCartesianPreload example_arm [9, 9, 9, 9, 9, 9, 9] [9, 9, 9, 9, 9, 9] =
     ([0, 0, 0, - 0.1, 0, 0, 0], [0, 0, 0, 0, 0, 0])"
  by (simp add: ControlEffortCartesianPreload_def Let_def example_arm_def vct_SetAll_def cmnPI_def)

theorem preload_effort_bound_witness:
  "fst (ControlEffortCartesianPreload example_arm [9, 9, 9, 9, 9, 9, 9] [9, 9, 9, 9, 9, 9]) ! 3 = - 0.1
   \<and> - 0.1 \<le> fst (ControlEffortCartesianPreload example_arm [9, 9, 9, 9, 9, 9, 9] [9, 9, 9, 9, 9, 9]) ! 3
   \<and> fst (ControlEffortCartesianPreload example_arm [9, 9, 9, 9, 9, 9, 9] [9, 9, 9, 9, 9, 9]) ! 3 \<le> 0.1"
proof -
  have l: "3 < length [9, 9, 9, 9, 9, 9, 9 :: real]"
    by simp
  have v: "fst (ControlEffortCartesianPreload example_arm [9, 9, 9, 9, 9, 9, 9] [9, 9, 9, 9, 9, 9]) ! 3 = - 0.1"
    by (simp add: example_arm_preload)
  from preload_effort_bound [of "[9, 9, 9, 9, 9, 9, 9]" example_arm "[9, 9, 9, 9, 9, 9]"] l v
  show ?thesis by blast
qed

theorem preload_frame_witness:
  "fst (ControlEffortCartesianPreload example_arm [9, 9, 9, 9, 9, 9, 9] [9, 9, 9, 9, 9, 9]) ! 0 = 0
   \<and> fst (ControlEffortCartesianPreload example_arm [9, 9, 9, 9, 9, 9, 9] [9, 9, 9, 9, 9, 9]) ! 6 = 0
   \<and> snd (ControlEffortCartesianPreload example_arm [9, 9, 9, 9, 9, 9, 9] [9, 9, 9, 9, 9, 9])
       = [0, 0, 0, 0, 0, 0]"
proof -
  note t = preload_frame [of "[9, 9, 9, 9, 9, 9, 9]" example_arm "[9, 9, 9, 9, 9, 9]"]
  have a: "(0::nat) < length [9, 9, 9, 9, 9, 9, 9 :: real] \<and> (0::nat) \<noteq> 3"
    by simp
  have b: "(6::nat) < length [9, 9, 9, 9, 9, 9, 9 :: real] \<and> (6::nat) \<noteq> 3"
    by simp
  have c: "replicate (length [9, 9, 9, 9, 9, 9 :: real]) (0::real) = [0, 0, 0, 0, 0, 0]"
    by (simp add: eval_nat_numeral)
  from t a b show ?thesis
    unfolding c by blast
qed

theorem torque_mode_selection_witness:
  "sent (SetControlEffortActiveJoints [False, True, False, True, False, True, False] example_arm)
     = [PID_EnableTorqueMode [True, True, True, False, False, False, False]]
   \<and> sent (SetControlEffortActiveJoints [False, True, False, True, False, True, False]
             (example_arm\<lparr>m_effort_orientation_locked := False\<rparr>))
     = [PID_EnableTorqueMode [True, True, True, True, True, True, True]]"
proof -
  have l: "length [False, True, False, True, False, True, False] = NumberOfJoints"
    by (simp add: NumberOfJoints_def)
  have f: "m_effort_orientation_locked example_arm" "sent example_arm = []"
    by (simp_all add: example_arm_def)
  from torque_mode_selection [OF l, of example_arm]
    torque_mode_selection [OF l, of "example_arm\<lparr>m_effort_orientation_locked := False\<rparr>"] f
  show ?thesis by simp
qed


end
